theory Spec2Isabelle
  imports Main "HOL-Library.Sublist" "HOL-Library.Log_Nat" "HOL-Library.AList"
begin

section \<open>Go values used by the retry controller\<close>

subsection \<open>Errors\<close>

text \<open>
  A Go \<^verbatim>\<open>error\<close> value is modelled by its text (what \<^verbatim>\<open>Error()\<close> returns) and the
  error it wraps, if any (\<^verbatim>\<open>fmt.Errorf\<close> with \<^verbatim>\<open>%w\<close>). A nil error is \<open>None\<close> of
  \<open>error option\<close>.
\<close>

datatype error = GoError (Error: string) (Unwrap: "error option")

definition Errorf :: "string \<Rightarrow> error" where
  "Errorf msg = GoError msg None"

definition Errorf_w :: "string \<Rightarrow> error \<Rightarrow> error" where
  "Errorf_w prefix_text err = GoError (prefix_text @ Error err) (Some err)"

subsection \<open>Strings\<close>

text \<open>
  A Go string is a sequence of bytes, here a \<open>char list\<close>. \<^verbatim>\<open>strings.ToLower\<close> is
  modelled on ASCII text, where it maps the bytes \<^verbatim>\<open>A..Z\<close> to \<^verbatim>\<open>a..z\<close> and keeps
  every other byte; Go case-maps multi-byte runes as well, which needs the Unicode tables
  and is outside this model.
\<close>

definition ascii :: "string \<Rightarrow> bool" where
  "ascii s = list_all (\<lambda>c. (of_char c :: nat) < 128) s"

definition lower_byte :: "char \<Rightarrow> char" where
  "lower_byte c =
     (if 65 \<le> (of_char c :: nat) \<and> (of_char c :: nat) \<le> 90
      then char_of ((of_char c :: nat) + 32) else c)"

definition ToLower :: "string \<Rightarrow> string" where
  "ToLower s = map lower_byte s"

text \<open>\<^verbatim>\<open>strings.Index\<close>: the position of the first occurrence, \<open>None\<close> for \<^verbatim>\<open>-1\<close>.\<close>

fun Index :: "string \<Rightarrow> string \<Rightarrow> nat option" where
  "Index [] sub = (if sub = [] then Some 0 else None)"
| "Index (c # s) sub =
     (if prefix sub (c # s) then Some 0 else map_option Suc (Index s sub))"

definition Contains :: "string \<Rightarrow> string \<Rightarrow> bool" where
  "Contains s sub = (Index s sub \<noteq> None)"

subsection \<open>64-bit integers and durations\<close>

text \<open>
  \<^verbatim>\<open>time.Duration\<close> is an \<^verbatim>\<open>int64\<close> count of nanoseconds. Values are integers here, and
  \<open>wrap64\<close> is the two's complement wrap-around of an \<^verbatim>\<open>int64\<close> operation.
\<close>

definition wrap64 :: "int \<Rightarrow> int" where
  "wrap64 i = (i + 2 ^ 63) mod 2 ^ 64 - 2 ^ 63"

definition Millisecond :: int where
  "Millisecond = 1000000"

definition Second :: int where
  "Second = 1000000000"

subsection \<open>float64\<close>

text \<open>
  An IEEE 754 binary64 value: a finite value is the rational it denotes (the two zeros
  are not distinguished; nothing here depends on the sign of a zero). Every operation
  rounds its exact result to the nearest representable value, ties to even, with 53
  significant bits, gradual underflow below \<open>2 powi (-1022)\<close> and overflow to an
  infinity from \<open>2 ^ 1024\<close> on.
\<close>

datatype float64 = Finite rat | PosInf | NegInf | NaN

definition round_half_even :: "rat \<Rightarrow> int" where
  "round_half_even q =
     (let f = \<lfloor>q\<rfloor>; d = q - of_int f
      in if d < 1 / 2 then f else if 1 / 2 < d then f + 1 else if even f then f else f + 1)"

definition floor_log2 :: "rat \<Rightarrow> int" where
  "floor_log2 x =
     (let (n, d) = quotient_of x; e = bitlen n - bitlen d
      in if 2 powi e \<le> x then e else e - 1)"

definition round_float64 :: "rat \<Rightarrow> float64" where
  "round_float64 x =
     (if x = 0 then Finite 0
      else let e = max (floor_log2 \<bar>x\<bar>) (- 1022);
               ulp = 2 powi (e - 52);
               y = of_int (round_half_even (x / ulp)) * ulp
           in if 2 ^ 1024 \<le> \<bar>y\<bar> then (if 0 < x then PosInf else NegInf) else Finite y)"

fun f64_sign :: "float64 \<Rightarrow> int" where
  "f64_sign (Finite a) = (if 0 < a then 1 else if a < 0 then - 1 else 0)"
| "f64_sign PosInf = 1"
| "f64_sign NegInf = - 1"
| "f64_sign NaN = 0"

definition f64_mul :: "float64 \<Rightarrow> float64 \<Rightarrow> float64" where
  "f64_mul x y =
     (case (x, y) of
        (Finite a, Finite b) \<Rightarrow> round_float64 (a * b)
      | _ \<Rightarrow>
          (let s = f64_sign x * f64_sign y
           in if s = 0 then NaN else if 0 < s then PosInf else NegInf))"

fun f64_sub :: "float64 \<Rightarrow> float64 \<Rightarrow> float64" where
  "f64_sub (Finite a) (Finite b) = round_float64 (a - b)"
| "f64_sub NaN y = NaN"
| "f64_sub x NaN = NaN"
| "f64_sub PosInf PosInf = NaN"
| "f64_sub NegInf NegInf = NaN"
| "f64_sub PosInf y = PosInf"
| "f64_sub NegInf y = NegInf"
| "f64_sub x PosInf = NegInf"
| "f64_sub x NegInf = PosInf"

text \<open>The conversion \<^verbatim>\<open>float64(i)\<close> of an \<^verbatim>\<open>int64\<close>.\<close>

definition float64_of_int64 :: "int \<Rightarrow> float64" where
  "float64_of_int64 i = round_float64 (of_int i)"

text \<open>
  The conversion \<^verbatim>\<open>time.Duration(x)\<close> (that is, \<^verbatim>\<open>int64(x)\<close>) of a \<^verbatim>\<open>float64\<close>: the
  fraction is discarded, truncating towards zero. For a value that does not fit (and
  for an infinity or a NaN) Go leaves the result to the implementation; the result
  modelled is the one of amd64, the smallest \<^verbatim>\<open>int64\<close>.
\<close>

definition toward_zero :: "rat \<Rightarrow> int" where
  "toward_zero a = (if 0 \<le> a then \<lfloor>a\<rfloor> else \<lceil>a\<rceil>)"

definition int64_of_float64 :: "float64 \<Rightarrow> int" where
  "int64_of_float64 x =
     (case x of
        Finite a \<Rightarrow>
          (let t = toward_zero a in if - (2 ^ 63) \<le> t \<and> t < 2 ^ 63 then t else - (2 ^ 63))
      | _ \<Rightarrow> - (2 ^ 63))"

subsection \<open>strconv.ParseFloat on digits and dots\<close>

definition is_digit :: "char \<Rightarrow> bool" where
  "is_digit c = (48 \<le> (of_char c :: nat) \<and> (of_char c :: nat) \<le> 57)"

definition digits_value :: "string \<Rightarrow> nat" where
  "digits_value ds = foldl (\<lambda>acc c. 10 * acc + ((of_char c :: nat) - 48)) 0 ds"

text \<open>
  \<^verbatim>\<open>strconv.ParseFloat(s, 64)\<close> for the only strings the retry controller passes to it,
  those made of decimal digits and dots: digits with at most one dot and at least one
  digit, read as a decimal number and rounded to the nearest \<^verbatim>\<open>float64\<close>. \<open>None\<close> is a
  non-nil error: a syntax error, or the range error of a number that rounds to an
  infinity.
\<close>

definition decimal_float64 :: "string \<Rightarrow> string \<Rightarrow> float64 option" where
  "decimal_float64 ip fp =
     (case round_float64 (of_nat (digits_value (ip @ fp)) / 10 ^ length fp) of
        Finite y \<Rightarrow> Some (Finite y)
      | _ \<Rightarrow> None)"

definition ParseFloat :: "string \<Rightarrow> float64 option" where
  "ParseFloat s =
     (let ip = takeWhile is_digit s
      in case dropWhile is_digit s of
           [] \<Rightarrow> (if ip = [] then None else decimal_float64 ip [])
         | c # fp \<Rightarrow>
             (if c = CHR ''.'' \<and> list_all is_digit fp \<and> 0 < length (ip @ fp)
              then decimal_float64 ip fp else None))"

section \<open>The retry controller (ratelimit.go)\<close>

subsection \<open>Configuration and construction\<close>

record RateLimitConfig =
  MaxRetries :: int
  InitialBackoff :: int
  MaxBackoff :: int
  BackoffMultiplier :: float64

definition DefaultRateLimitConfig :: RateLimitConfig where
  "DefaultRateLimitConfig =
     \<lparr>MaxRetries = 3, InitialBackoff = 1 * Second, MaxBackoff = 60 * Second,
      BackoffMultiplier = Finite 2\<rparr>"

text \<open>
  A \<^verbatim>\<open>*RateLimitConfig\<close> is an address into a store of configurations: the caller and
  every limiter built from the same pointer see the same object. The store is a list,
  an address is an index into it, and allocation appends. \<^verbatim>\<open>nil\<close> is \<open>None\<close>.
\<close>

type_synonym heap = "RateLimitConfig list"

record rateLimiter =
  config :: nat

text \<open>The four assignments of \<^verbatim>\<open>newRateLimiter\<close>, in the order of the source.\<close>

definition apply_defaults :: "RateLimitConfig \<Rightarrow> RateLimitConfig" where
  "apply_defaults c =
     (let c1 = (if MaxRetries c = 0 then c\<lparr>MaxRetries := 3\<rparr> else c);
          c2 = (if InitialBackoff c1 = 0 then c1\<lparr>InitialBackoff := 1 * Second\<rparr> else c1);
          c3 = (if MaxBackoff c2 = 0 then c2\<lparr>MaxBackoff := 60 * Second\<rparr> else c2)
      in if BackoffMultiplier c3 = Finite 0 then c3\<lparr>BackoffMultiplier := Finite 2\<rparr> else c3)"

text \<open>
  \<^verbatim>\<open>newRateLimiter(config, logger)\<close>: the limiter and the store after the call. The
  logger does not influence any value computed here and is left out. A non-nil pointer
  is an address of the store.
\<close>

definition newRateLimiter :: "heap \<Rightarrow> nat option \<Rightarrow> rateLimiter \<times> heap" where
  "newRateLimiter h cfg_ptr =
     (case cfg_ptr of
        None \<Rightarrow> (\<lparr>config = length h\<rparr>, h @ [apply_defaults DefaultRateLimitConfig])
      | Some p \<Rightarrow> (\<lparr>config = p\<rparr>, h[p := apply_defaults (h ! p)]))"

subsection \<open>Classification of errors\<close>

definition rateLimitIndicators :: "string list" where
  "rateLimitIndicators =
     [''rate limit'', ''rate_limit'', ''ratelimit'', ''too many requests'', ''429'',
      ''quota exceeded'', ''quota_exceeded'', ''overloaded'', ''capacity'', ''throttl'']"

definition isRateLimitError :: "error option \<Rightarrow> bool" where
  "isRateLimitError err =
     (case err of
        None \<Rightarrow> False
      | Some e \<Rightarrow> list_ex (Contains (ToLower (Error e))) rateLimitIndicators)"

subsection \<open>The retry-after hint\<close>

definition is_number_byte :: "char \<Rightarrow> bool" where
  "is_number_byte c = (is_digit c \<or> c = CHR ''.'')"

definition retry_after_patterns :: "string list" where
  "retry_after_patterns =
     [''retry after '', ''retry-after: '', ''retry_after='', ''retry_after_ms='']"

text \<open>
  One round of the loop over the patterns of \<^verbatim>\<open>extractRetryAfter\<close>: \<open>Some d\<close> when the
  round returns \<open>d\<close>, \<open>None\<close> when it goes on to the next pattern. The pattern is looked
  up in the lowered text, the number is read from the text itself.
\<close>

definition match_pattern :: "string \<Rightarrow> string \<Rightarrow> int option" where
  "match_pattern errStr pattern =
     (case Index (ToLower errStr) pattern of
        None \<Rightarrow> None
      | Some idx \<Rightarrow>
          (let start = idx + length pattern;
               number = takeWhile is_number_byte (drop start errStr)
           in if number = [] then None
              else (case ParseFloat number of
                      None \<Rightarrow> None
                    | Some val \<Rightarrow>
                        Some (if Contains pattern ''ms''
                              then wrap64 (int64_of_float64 val * Millisecond)
                              else wrap64 (int64_of_float64 val * Second)))))"

fun first_match :: "string \<Rightarrow> string list \<Rightarrow> int" where
  "first_match errStr [] = 0"
| "first_match errStr (pattern # patterns) =
     (case match_pattern errStr pattern of
        Some d \<Rightarrow> d
      | None \<Rightarrow> first_match errStr patterns)"

definition extractRetryAfter :: "error option \<Rightarrow> int" where
  "extractRetryAfter err =
     (case err of
        None \<Rightarrow> 0
      | Some e \<Rightarrow> first_match (Error e) retry_after_patterns)"

subsection \<open>The wait before the next attempt\<close>

text \<open>
  \<^verbatim>\<open>calculateBackoff(baseBackoff, err)\<close>; the third argument is the value that
  \<^verbatim>\<open>rand.Float64()\<close> returns when it is called.
\<close>

definition calculateBackoff :: "int \<Rightarrow> error option \<Rightarrow> float64 \<Rightarrow> int" where
  "calculateBackoff baseBackoff err u =
     (let retryAfter = extractRetryAfter err
      in if 0 < retryAfter then retryAfter
         else (let jitter =
                     f64_mul (f64_mul (float64_of_int64 baseBackoff) (Finite (1 / 4)))
                       (f64_sub (f64_mul u (Finite 2)) (Finite 1))
               in wrap64 (baseBackoff + int64_of_float64 jitter)))"

text \<open>The growth of the backoff at the end of a round of \<^verbatim>\<open>Execute\<close>.\<close>

definition grow_backoff :: "RateLimitConfig \<Rightarrow> int \<Rightarrow> int" where
  "grow_backoff cfg backoff =
     (let b = int64_of_float64 (f64_mul (float64_of_int64 backoff) (BackoffMultiplier cfg))
      in if MaxBackoff cfg < b then MaxBackoff cfg else b)"

subsection \<open>Execute\<close>

text \<open>
  The context is seen at the two \<^verbatim>\<open>select\<close> statements of \<^verbatim>\<open>Execute\<close>: before the
  attempt with a given number, and during the wait that follows it, where the second
  argument is the duration waited for. \<open>Err\<close> is what \<^verbatim>\<open>ctx.Err()\<close> returns then.
\<close>

record Context =
  Done_before_attempt :: "nat \<Rightarrow> bool"
  Done_during_wait :: "nat \<Rightarrow> int \<Rightarrow> bool"
  Err :: error

text \<open>
  A \<^verbatim>\<open>RetryFunc\<close> is a closure with effects: its result may change from one call to
  the next. It is the function from the number of the call (from 0) to the result of
  that call.
\<close>

type_synonym RetryFunc = "nat \<Rightarrow> error option"

text \<open>
  What a run of \<^verbatim>\<open>Execute\<close> does: the error returned, how many times the operation
  was invoked, and the waits started, in order.
\<close>

record outcome =
  returned :: "error option"
  calls :: nat
  waits :: "int list"

definition after_attempt :: "int \<Rightarrow> outcome \<Rightarrow> outcome" where
  "after_attempt waitDuration out =
     out\<lparr>calls := Suc (calls out), waits := waitDuration # waits out\<rparr>"

text \<open>
  The loop of \<^verbatim>\<open>Execute\<close> from the round \<open>attempt\<close> on, with the current values of
  \<^verbatim>\<open>backoff\<close> and \<^verbatim>\<open>lastErr\<close>. \<open>rnd attempt\<close> is the random number drawn in that round.
  The calls of the logger are left out. \<^verbatim>\<open>attempt\<close> never exceeds \<^verbatim>\<open>MaxRetries\<close>, so
  the \<^verbatim>\<open>int\<close> does not overflow.
\<close>

function attempts ::
  "RateLimitConfig \<Rightarrow> Context \<Rightarrow> RetryFunc \<Rightarrow> (nat \<Rightarrow> float64) \<Rightarrow> nat \<Rightarrow> int \<Rightarrow> error option \<Rightarrow> outcome"
where
  "attempts cfg ctx fn rnd attempt backoff lastErr =
     (if int attempt \<le> MaxRetries cfg then
        (if Done_before_attempt ctx attempt
         then \<lparr>returned = Some (Err ctx), calls = 0, waits = []\<rparr>
         else (case fn attempt of
                 None \<Rightarrow> \<lparr>returned = None, calls = 1, waits = []\<rparr>
               | Some err \<Rightarrow>
                   (if \<not> isRateLimitError (Some err)
                    then \<lparr>returned = Some err, calls = 1, waits = []\<rparr>
                    else if MaxRetries cfg \<le> int attempt
                    then \<lparr>returned = Some err, calls = 1, waits = []\<rparr>
                    else (let waitDuration = calculateBackoff backoff (Some err) (rnd attempt)
                          in if Done_during_wait ctx attempt waitDuration
                             then \<lparr>returned = Some (Err ctx), calls = 1, waits = [waitDuration]\<rparr>
                             else after_attempt waitDuration
                                    (attempts cfg ctx fn rnd (Suc attempt)
                                       (grow_backoff cfg backoff) (Some err))))))
      else \<lparr>returned = lastErr, calls = 0, waits = []\<rparr>)"
  by pat_completeness auto
termination
  by (relation "measure (\<lambda>(cfg, ctx, fn, rnd, attempt, backoff, lastErr).
                  nat (MaxRetries cfg + 1 - int attempt))") auto

declare attempts.simps [simp del]

text \<open>
  \<^verbatim>\<open>r.Execute(ctx, fn)\<close> in the store \<open>h\<close>: the configuration is the one \<^verbatim>\<open>r.config\<close>
  points to.
\<close>

definition Execute ::
  "heap \<Rightarrow> rateLimiter \<Rightarrow> Context \<Rightarrow> RetryFunc \<Rightarrow> (nat \<Rightarrow> float64) \<Rightarrow> outcome"
where
  "Execute h r ctx fn rnd =
     (let cfg = h ! config r in attempts cfg ctx fn rnd 0 (InitialBackoff cfg) None)"

section \<open>The gateway (types.go, gateway.go)\<close>

subsection \<open>Descriptors, responses, adapters\<close>

type_synonym ProviderType = string

text \<open>
  The interface \<^verbatim>\<open>Model\<close>: its three methods read fields of the descriptor, so a
  descriptor is the record of what they return (\<open>Model_Provider\<close> is \<^verbatim>\<open>Provider()\<close>).
\<close>

record ModelDescriptor =
  ModelName :: string
  Model_Provider :: ProviderType
  SystemPrompt :: string

record TokenUsage =
  PromptTokens :: int
  CompletionTokens :: int
  TotalTokens :: int

record GenerationResponse =
  Text :: string
  Provider :: ProviderType
  Model :: string
  Usage :: TokenUsage
  FinishReason :: string
  Metadata :: "string \<rightharpoonup> string"

text \<open>
  The interface \<^verbatim>\<open>Provider\<close> of an adapter. \<^verbatim>\<open>Generate\<close> returns a pair of a pointer
  to a response (\<open>None\<close> is \<^verbatim>\<open>nil\<close>) and an error. An adapter stored in the gateway is a
  non-nil interface value.
\<close>

record Adapter =
  adapter_Generate ::
    "Context \<Rightarrow> ModelDescriptor \<Rightarrow> string \<Rightarrow> GenerationResponse option \<times> error option"
  adapter_Health :: "Context \<Rightarrow> error option"
  adapter_Close :: "error option"

record ProviderConfig =
  providerType :: ProviderType
  apiKey :: string
  timeout :: int
  rateLimitConfig :: "nat option"

text \<open>
  A \<^verbatim>\<open>ProviderFactory\<close> returns an adapter or an error (\<open>Inl\<close>); the logger it is given
  is left out. The table \<^verbatim>\<open>providerFactories\<close> is a map.
\<close>

type_synonym ProviderFactory = "ProviderConfig \<Rightarrow> error + Adapter"

type_synonym registry = "ProviderType \<rightharpoonup> ProviderFactory"

definition RegisterProvider :: "registry \<Rightarrow> ProviderType \<Rightarrow> ProviderFactory \<Rightarrow> registry" where
  "RegisterProvider providerFactories pt factory = providerFactories(pt \<mapsto> factory)"

text \<open>
  The gateway holds the map \<^verbatim>\<open>providers\<close>, an association list with one entry for each
  key; a loop over the map visits the entries in the order of the list (Go fixes no
  order). The calls made to a factory and to \<^verbatim>\<open>Close\<close> of an adapter are recorded as
  events.
\<close>

record LLMGateway =
  providers :: "(ProviderType \<times> Adapter) list"

datatype event = FactoryCalled ProviderType | CloseCalled ProviderType

subsection \<open>New\<close>

text \<open>
  The loop of \<^verbatim>\<open>New\<close> over the configurations (\<open>None\<close> is a nil configuration), from the
  map built so far: the error or the final map, and the events in order.
\<close>

fun register_all ::
  "registry \<Rightarrow> ProviderConfig option list \<Rightarrow> (ProviderType \<times> Adapter) list \<Rightarrow>
     (error + (ProviderType \<times> Adapter) list) \<times> event list"
where
  "register_all providerFactories [] ps = (Inr ps, [])"
| "register_all providerFactories (None # configs) ps =
     register_all providerFactories configs ps"
| "register_all providerFactories (Some conf # configs) ps =
     (let pt = providerType conf
      in case providerFactories pt of
           None \<Rightarrow> (Inl (Errorf (''unknown provider type: '' @ pt)), [])
         | Some factory \<Rightarrow>
             (case factory conf of
                Inl err \<Rightarrow>
                  (Inl (Errorf_w (''failed to initialize '' @ pt @ '': '') err),
                   [FactoryCalled pt])
              | Inr client \<Rightarrow>
                  (let (res, evs) =
                         register_all providerFactories configs (AList.update pt client ps)
                   in (res, FactoryCalled pt # evs))))"

text \<open>
  \<^verbatim>\<open>New(configs, opts...)\<close> with the table of factories: the gateway (\<open>None\<close> is \<^verbatim>\<open>nil\<close>),
  the error, and the events. The options only set the logger.
\<close>

definition New ::
  "registry \<Rightarrow> ProviderConfig option list \<Rightarrow> (LLMGateway option \<times> error option) \<times> event list"
where
  "New providerFactories configs =
     (case register_all providerFactories configs [] of
        (Inl err, evs) \<Rightarrow> ((None, Some err), evs)
      | (Inr ps, evs) \<Rightarrow>
          (if length ps = 0
           then ((None, Some (Errorf ''at least one provider must be configured'')), evs)
           else ((Some \<lparr>providers = ps\<rparr>, None), evs)))"

subsection \<open>Generate, IsRegistered, ListRegisteredProviders, Health\<close>

text \<open>A call either returns or panics on the dereference of a nil pointer.\<close>

datatype 'a go_result = Returns 'a | Panics_nil_dereference

definition Generate ::
  "LLMGateway \<Rightarrow> Context \<Rightarrow> ModelDescriptor \<Rightarrow> string \<Rightarrow>
     (GenerationResponse option \<times> error option) go_result"
where
  "Generate g ctx model prompt =
     (let provider = Model_Provider model
      in case map_of (providers g) provider of
           None \<Rightarrow>
             Returns (None, Some (Errorf (''provider '' @ provider @ '' is not registered'')))
         | Some client \<Rightarrow>
             (case adapter_Generate client ctx model prompt of
                (resp, Some err) \<Rightarrow> Returns (None, Some err)
              | (None, None) \<Rightarrow> Panics_nil_dereference
              | (Some r, None) \<Rightarrow> Returns (Some (r\<lparr>Provider := provider\<rparr>), None)))"

definition IsRegistered :: "LLMGateway \<Rightarrow> ProviderType \<Rightarrow> bool" where
  "IsRegistered g provider = (map_of (providers g) provider \<noteq> None)"

definition ListRegisteredProviders :: "LLMGateway \<Rightarrow> ProviderType list" where
  "ListRegisteredProviders g = map fst (providers g)"

definition Health :: "LLMGateway \<Rightarrow> Context \<Rightarrow> ProviderType \<Rightarrow> error option" where
  "Health g ctx provider =
     (case map_of (providers g) provider of
        None \<Rightarrow> Some (Errorf (''provider '' @ provider @ '' is not registered''))
      | Some client \<Rightarrow> adapter_Health client ctx)"

subsection \<open>Close\<close>

text \<open>The loop of \<^verbatim>\<open>Close\<close>: the errors collected and the events.\<close>

fun close_all :: "(ProviderType \<times> Adapter) list \<Rightarrow> error list \<times> event list" where
  "close_all [] = ([], [])"
| "close_all ((name, provider) # ps) =
     (let (errors, evs) = close_all ps
      in case adapter_Close provider of
           None \<Rightarrow> (errors, CloseCalled name # evs)
         | Some err \<Rightarrow>
             (Errorf_w (''provider '' @ name @ '': '') err # errors, CloseCalled name # evs))"

text \<open>The verb \<^verbatim>\<open>%v\<close> on a slice of errors: their texts between brackets, separated by spaces.\<close>

fun join_texts :: "error list \<Rightarrow> string" where
  "join_texts [] = []"
| "join_texts [e] = Error e"
| "join_texts (e # es) = Error e @ '' '' @ join_texts es"

text \<open>
  \<^verbatim>\<open>g.Close()\<close>: the gateway after the call, the error returned, and the events. No
  statement of \<^verbatim>\<open>Close\<close> writes to \<^verbatim>\<open>g.providers\<close>.
\<close>

definition Close :: "LLMGateway \<Rightarrow> LLMGateway \<times> error option \<times> event list" where
  "Close g =
     (let (errors, evs) = close_all (providers g)
      in (g,
          if 0 < length errors
          then Some (Errorf (''failed to close providers: ['' @ join_texts errors @ '']''))
          else None,
          evs))"

section \<open>Concrete inputs\<close>

text \<open>A context that is never cancelled, and one that is cancelled from the start.\<close>

definition Background :: Context where
  "Background =
     \<lparr>Done_before_attempt = (\<lambda>attempt. False),
      Done_during_wait = (\<lambda>attempt waitDuration. False),
      Err = Errorf ''context canceled''\<rparr>"

definition Cancelled :: Context where
  "Cancelled =
     \<lparr>Done_before_attempt = (\<lambda>attempt. True),
      Done_during_wait = (\<lambda>attempt waitDuration. True),
      Err = Errorf ''context canceled''\<rparr>"

definition never_cancelled :: "Context \<Rightarrow> bool" where
  "never_cancelled ctx =
     ((\<forall>attempt. \<not> Done_before_attempt ctx attempt) \<and>
      (\<forall>attempt waitDuration. \<not> Done_during_wait ctx attempt waitDuration))"

text \<open>An operation that is always answered with a status 429, and one that always fails for good.\<close>

definition too_many_requests :: error where
  "too_many_requests = Errorf ''429 Too Many Requests''"

definition invalid_api_key :: error where
  "invalid_api_key = Errorf ''401 invalid api key''"

definition always_429 :: RetryFunc where
  "always_429 n = Some too_many_requests"

definition always_denied :: RetryFunc where
  "always_denied n = Some invalid_api_key"

definition half :: "nat \<Rightarrow> float64" where
  "half n = Finite (1 / 2)"

text \<open>
  Configurations as a caller may write them: with every field left at zero, with only
  the initial backoff set (to two minutes), and with a negative number of retries.
\<close>

definition zero_config :: RateLimitConfig where
  "zero_config =
     \<lparr>MaxRetries = 0, InitialBackoff = 0, MaxBackoff = 0, BackoffMultiplier = Finite 0\<rparr>"

definition two_minutes_config :: RateLimitConfig where
  "two_minutes_config =
     \<lparr>MaxRetries = 0, InitialBackoff = 120 * Second, MaxBackoff = 0,
      BackoffMultiplier = Finite 0\<rparr>"

definition negative_retries_config :: RateLimitConfig where
  "negative_retries_config =
     \<lparr>MaxRetries = - 2, InitialBackoff = 0, MaxBackoff = 0, BackoffMultiplier = Finite 0\<rparr>"

text \<open>A configuration with one second, a cap of ten seconds and the multiplier 3.\<close>

definition tripling_config :: RateLimitConfig where
  "tripling_config =
     \<lparr>MaxRetries = 5, InitialBackoff = 1 * Second, MaxBackoff = 10 * Second,
      BackoffMultiplier = Finite 3\<rparr>"

text \<open>The limiters built from these configurations, each in a store that holds only it.\<close>

definition two_minutes_limiter :: "rateLimiter \<times> heap" where
  "two_minutes_limiter = newRateLimiter [two_minutes_config] (Some 0)"

definition negative_retries_limiter :: "rateLimiter \<times> heap" where
  "negative_retries_limiter = newRateLimiter [negative_retries_config] (Some 0)"

definition default_limiter :: "rateLimiter \<times> heap" where
  "default_limiter = newRateLimiter [] None"

text \<open>Errors that carry a hint: a fractional one, two at once, and one in milliseconds.\<close>

definition fractional_hint :: error where
  "fractional_hint = Errorf ''rate limit exceeded, retry after 2.5 seconds''"

definition two_hints :: error where
  "two_hints = Errorf ''429 retry_after=30, retry_after_ms=1500''"

definition ms_hint :: error where
  "ms_hint = Errorf ''429 Too Many Requests (retry_after_ms=1500)''"

text \<open>An adapter that answers every call, and one that returns neither a response nor an error.\<close>

definition stub_response :: GenerationResponse where
  "stub_response =
     \<lparr>Text = ''hello'', Provider = ''someone else'', Model = ''gpt-4o'',
      Usage = \<lparr>PromptTokens = 1, CompletionTokens = 1, TotalTokens = 2\<rparr>,
      FinishReason = ''stop'', Metadata = Map.empty\<rparr>"

definition stub_adapter :: Adapter where
  "stub_adapter =
     \<lparr>adapter_Generate = (\<lambda>ctx model prompt. (Some stub_response, None)),
      adapter_Health = (\<lambda>ctx. None),
      adapter_Close = None\<rparr>"

definition silent_adapter :: Adapter where
  "silent_adapter =
     \<lparr>adapter_Generate = (\<lambda>ctx model prompt. (None, None)),
      adapter_Health = (\<lambda>ctx. None),
      adapter_Close = None\<rparr>"

definition gpt4o :: ModelDescriptor where
  "gpt4o = \<lparr>ModelName = ''gpt-4o'', Model_Provider = ''openai'', SystemPrompt = ''''\<rparr>"

definition stub_gateway :: LLMGateway where
  "stub_gateway = \<lparr>providers = [(''openai'', stub_adapter)]\<rparr>"

definition silent_gateway :: LLMGateway where
  "silent_gateway = \<lparr>providers = [(''openai'', silent_adapter)]\<rparr>"

text \<open>
  Two configurations, and two tables of factories that know \<^verbatim>\<open>openai\<close> only: in the
  first the factory fails, in the second it returns the adapter above.
\<close>

definition openai_config :: ProviderConfig where
  "openai_config =
     \<lparr>providerType = ''openai'', apiKey = '''', timeout = 0, rateLimitConfig = None\<rparr>"

definition ollama_config :: ProviderConfig where
  "ollama_config =
     \<lparr>providerType = ''ollama'', apiKey = '''', timeout = 0, rateLimitConfig = None\<rparr>"

definition key_required :: error where
  "key_required = Errorf ''OpenAI API key is required''"

definition failing_registry :: registry where
  "failing_registry = RegisterProvider Map.empty ''openai'' (\<lambda>conf. Inl key_required)"

definition stub_registry :: registry where
  "stub_registry = RegisterProvider Map.empty ''openai'' (\<lambda>conf. Inr stub_adapter)"

text \<open>
  A configuration that \<^verbatim>\<open>New\<close> gets past: it is nil, or its provider has a factory and
  the factory returns an adapter for it.
\<close>

definition constructs :: "registry \<Rightarrow> ProviderConfig option \<Rightarrow> bool" where
  "constructs providerFactories c =
     (case c of
        None \<Rightarrow> True
      | Some conf \<Rightarrow>
          (case providerFactories (providerType conf) of
             None \<Rightarrow> False
           | Some factory \<Rightarrow> (case factory conf of Inl err \<Rightarrow> False | Inr client \<Rightarrow> True)))"

text \<open>
  An adapter that honours the contract of \<^verbatim>\<open>Generate\<close>: no call returns a nil response
  together with a nil error.
\<close>

definition returns_response_or_error :: "Adapter \<Rightarrow> bool" where
  "returns_response_or_error client =
     (\<forall>ctx model prompt. adapter_Generate client ctx model prompt \<noteq> (None, None))"

section \<open>Exact roundings\<close>

text \<open>
  A value with at most 53 significant bits and an exponent in range is a \<^verbatim>\<open>float64\<close>:
  rounding returns it unchanged.
\<close>

lemma round_half_even_of_int: "round_half_even (of_int m) = m"
  by (simp add: round_half_even_def)

lemma floor_log2_bounds:
  assumes "0 < x"
  shows "2 powi (floor_log2 x) \<le> x \<and> x < 2 powi (floor_log2 x + 1)"
proof -
  obtain n d where q: "quotient_of x = (n, d)" by (cases "quotient_of x")
  have d: "0 < d" using q quotient_of_denom_pos by blast
  have x: "x = of_int n / of_int d" using q quotient_of_div by blast
  have n: "0 < n" using assms x d by (simp add: zero_less_divide_iff)
  define bn where "bn = bitlen n"
  define bd where "bd = bitlen d"
  have bn1: "1 \<le> bn" using n bitlen_eq_zero_iff[of n] bitlen_nonneg[of n] unfolding bn_def by linarith
  have bd1: "1 \<le> bd" using d bitlen_eq_zero_iff[of d] bitlen_nonneg[of d] unfolding bd_def by linarith
  have nb: "2 ^ nat (bn - 1) \<le> n" "n < 2 ^ nat bn" using bitlen_bounds[OF n] unfolding bn_def by auto
  have db: "2 ^ nat (bd - 1) \<le> d" "d < 2 ^ nat bd" using bitlen_bounds[OF d] unfolding bd_def by auto
  have nbr: "(2::rat) powi (bn - 1) \<le> of_int n" "(of_int n :: rat) < 2 powi bn"
  proof -
    have "(of_int (2 ^ nat (bn - 1)) :: rat) \<le> of_int n" using nb(1) by (rule iffD2[OF of_int_le_iff])
    then show "(2::rat) powi (bn - 1) \<le> of_int n" using bn1 by (simp add: power_int_def)
    have "(of_int n :: rat) < of_int (2 ^ nat bn)" using nb(2) by (rule iffD2[OF of_int_less_iff])
    then show "(of_int n :: rat) < 2 powi bn" using bn1 by (simp add: power_int_def)
  qed
  have dbr: "(2::rat) powi (bd - 1) \<le> of_int d" "(of_int d :: rat) < 2 powi bd"
  proof -
    have "(of_int (2 ^ nat (bd - 1)) :: rat) \<le> of_int d" using db(1) by (rule iffD2[OF of_int_le_iff])
    then show "(2::rat) powi (bd - 1) \<le> of_int d" using bd1 by (simp add: power_int_def)
    have "(of_int d :: rat) < of_int (2 ^ nat bd)" using db(2) by (rule iffD2[OF of_int_less_iff])
    then show "(of_int d :: rat) < 2 powi bd" using bd1 by (simp add: power_int_def)
  qed
  have dpos: "(0::rat) < of_int d" using d by simp
  have up: "x < 2 powi (bn - bd + 1)"
  proof -
    have "of_int n < (2::rat) powi (bn - bd + 1) * 2 powi (bd - 1)"
      using nbr(2) by (simp add: power_int_add[symmetric])
    also have "\<dots> \<le> 2 powi (bn - bd + 1) * of_int d"
      using dbr(1) by (intro mult_left_mono) auto
    finally show ?thesis using dpos unfolding x by (simp add: pos_divide_less_eq)
  qed
  have lo: "2 powi (bn - bd - 1) < x"
  proof -
    have "(2::rat) powi (bn - bd - 1) * of_int d < 2 powi (bn - bd - 1) * 2 powi bd"
      using dbr(2) by (intro mult_strict_left_mono) auto
    also have "\<dots> = 2 powi (bn - 1)" by (simp add: power_int_add[symmetric])
    also have "\<dots> \<le> of_int n" using nbr(1) .
    finally show ?thesis using dpos unfolding x by (simp add: pos_less_divide_eq)
  qed
  show ?thesis
    using up lo q unfolding floor_log2_def bn_def bd_def
    by (auto simp: Let_def not_le)
qed


lemma round_float64_exact:
  assumes x: "x = of_int m * 2 powi k" and m: "\<bar>m\<bar> < 2 ^ 53" and k: "- 1074 \<le> k" "k \<le> 971"
  shows "round_float64 x = Finite x"
proof (cases "x = 0")
  case True
  then show ?thesis by (simp add: round_float64_def)
next
  case False
  define e0 where "e0 = floor_log2 \<bar>x\<bar>"
  define e where "e = max e0 (- 1022)"
  have ax: "0 < \<bar>x\<bar>" using False by simp
  have b: "2 powi e0 \<le> \<bar>x\<bar>" using floor_log2_bounds[OF ax] unfolding e0_def by simp
  have mr: "\<bar>of_int m :: rat\<bar> < 2 powi 53"
  proof -
    have "(of_int \<bar>m\<bar> :: rat) < of_int (2 ^ 53)" using m by (rule iffD2[OF of_int_less_iff])
    then show ?thesis by (simp only: of_int_abs of_int_power of_int_numeral power_int_numeral)
  qed
  have absx: "\<bar>x\<bar> = \<bar>of_int m\<bar> * 2 powi k" unfolding x by (simp add: abs_mult)
  have ke: "e - 52 \<le> k"
  proof (cases "- 1022 \<le> e0")
    case True
    have "\<bar>of_int m :: rat\<bar> * 2 powi k < 2 powi 53 * 2 powi k"
      using mr by (intro mult_strict_right_mono) auto
    then have "(2::rat) powi e0 < 2 powi 53 * 2 powi k"
      using b unfolding absx by linarith
    then have "(2::rat) powi e0 < 2 powi (53 + k)" by (simp add: power_int_add)
    then have "e0 < 53 + k"
      using power_int_increasing[of "53 + k" e0 "2::rat"] by (cases "e0 < 53 + k") auto
    then show ?thesis using True unfolding e_def by simp
  next
    case False
    then show ?thesis using k unfolding e_def by simp
  qed
  define j where "j = nat (k - (e - 52))"
  have xdiv: "x / 2 powi (e - 52) = of_int (m * 2 ^ j)"
  proof -
    have "x / 2 powi (e - 52) = of_int m * 2 powi (k - (e - 52))"
      unfolding x by (simp add: power_int_diff)
    also have "\<dots> = of_int m * 2 ^ j" using ke unfolding j_def by (simp add: power_int_def)
    finally show ?thesis by simp
  qed
  have y: "of_int (round_half_even (x / 2 powi (e - 52))) * 2 powi (e - 52) = x"
  proof -
    have "of_int (round_half_even (x / 2 powi (e - 52))) * (2::rat) powi (e - 52)
           = (x / 2 powi (e - 52)) * 2 powi (e - 52)"
      unfolding xdiv round_half_even_of_int ..
    then show ?thesis by simp
  qed
  have small: "\<bar>x\<bar> < 2 ^ 1024"
  proof -
    have "\<bar>x\<bar> < 2 powi 53 * 2 powi k" unfolding absx using mr
      by (intro mult_strict_right_mono) auto
    also have "\<dots> = 2 powi (53 + k)" by (simp add: power_int_add)
    also have "\<dots> \<le> 2 powi 1024" using k by (intro power_int_increasing) auto
    finally show ?thesis by (simp only: power_int_numeral)
  qed
  have nl: "\<not> 2 ^ 1024 \<le> \<bar>x\<bar>" using small by (simp only: not_le)
  show ?thesis
    unfolding round_float64_def Let_def e_def[symmetric] e0_def[symmetric]
    by (simp only: False y nl if_False)
qed

lemma round_float64_int: "\<bar>m\<bar> < 2 ^ 53 \<Longrightarrow> round_float64 (of_int m) = Finite (of_int m)"
  using round_float64_exact[of "of_int m" m 0] by simp

lemma float64_of_int64_exact: "\<bar>i\<bar> < 2 ^ 53 \<Longrightarrow> float64_of_int64 i = Finite (of_int i)"
  by (simp add: float64_of_int64_def round_float64_int)

lemma toward_zero_of_int: "toward_zero (of_int i) = i"
  by (simp add: toward_zero_def)

lemma int64_of_float64_int: "\<bar>i\<bar> < 2 ^ 53 \<Longrightarrow> int64_of_float64 (Finite (of_int i)) = i"
  by (auto simp add: int64_of_float64_def toward_zero_of_int Let_def)

lemma wrap64_id: "- (2 ^ 63) \<le> i \<Longrightarrow> i < 2 ^ 63 \<Longrightarrow> wrap64 i = i"
  by (simp add: wrap64_def)

lemma calculateBackoff_half:
  assumes "extractRetryAfter err \<le> 0" and b: "\<bar>b\<bar> < 2 ^ 53"
  shows "calculateBackoff b err (Finite (1 / 2)) = b"
proof -
  have q: "round_float64 (of_int b * (1 / 4)) = Finite (of_int b * (1 / 4))"
    using b by (intro round_float64_exact[of _ b "- 2"]) (simp_all add: power_int_def power2_eq_square)
  have one: "round_float64 1 = Finite 1" using round_float64_int[of 1] by simp
  have j: "f64_mul (f64_mul (float64_of_int64 b) (Finite (1 / 4)))
             (f64_sub (f64_mul (Finite (1 / 2)) (Finite 2)) (Finite 1)) = Finite 0"
    using b q one by (simp add: float64_of_int64_exact f64_mul_def round_float64_def[of 0])
  have w: "wrap64 b = b" using b by (intro wrap64_id) auto
  show ?thesis using assms w unfolding calculateBackoff_def Let_def j
    by (simp add: int64_of_float64_def toward_zero_def)
qed

lemma grow_backoff_int:
  assumes "BackoffMultiplier cfg = Finite (of_int m)" "\<bar>b\<bar> < 2 ^ 53" "\<bar>b * m\<bar> < 2 ^ 53"
  shows "grow_backoff cfg b = (if MaxBackoff cfg < b * m then MaxBackoff cfg else b * m)"
proof -
  have "f64_mul (float64_of_int64 b) (BackoffMultiplier cfg) = Finite (of_int (b * m))"
    using assms round_float64_int[of "b * m"] by (simp add: float64_of_int64_exact f64_mul_def)
  then have "int64_of_float64 (f64_mul (float64_of_int64 b) (BackoffMultiplier cfg)) = b * m"
    using int64_of_float64_int[OF assms(3)] by (simp only:)
  then show ?thesis by (simp add: grow_backoff_def Let_def)
qed

section \<open>The loop of Execute\<close>

text \<open>Evaluating the classification and the hint on a given text.\<close>

lemmas string_eval =
  isRateLimitError_def extractRetryAfter_def Errorf_def ToLower_def lower_byte_def
  rateLimitIndicators_def retry_after_patterns_def Contains_def match_pattern_def
  is_number_byte_def is_digit_def

lemma too_many_requests_transient: "isRateLimitError (Some too_many_requests)"
  by (simp add: too_many_requests_def string_eval)

lemma too_many_requests_no_hint: "extractRetryAfter (Some too_many_requests) = 0"
  by (simp add: too_many_requests_def string_eval)

lemma invalid_api_key_permanent: "\<not> isRateLimitError (Some invalid_api_key)"
  by (simp add: invalid_api_key_def string_eval)

lemma attempts_retry:
  "int attempt < MaxRetries cfg \<Longrightarrow> \<not> Done_before_attempt ctx attempt \<Longrightarrow>
   fn attempt = Some err \<Longrightarrow> isRateLimitError (Some err) \<Longrightarrow>
   \<not> Done_during_wait ctx attempt (calculateBackoff backoff (Some err) (rnd attempt)) \<Longrightarrow>
   attempts cfg ctx fn rnd attempt backoff lastErr =
     after_attempt (calculateBackoff backoff (Some err) (rnd attempt))
       (attempts cfg ctx fn rnd (Suc attempt) (grow_backoff cfg backoff) (Some err))"
  by (subst attempts.simps) (simp add: Let_def)

lemma attempts_exhausted:
  "int attempt = MaxRetries cfg \<Longrightarrow> \<not> Done_before_attempt ctx attempt \<Longrightarrow>
   fn attempt = Some err \<Longrightarrow>
   attempts cfg ctx fn rnd attempt backoff lastErr = \<lparr>returned = Some err, calls = 1, waits = []\<rparr>"
  by (subst attempts.simps) simp

lemma attempts_none:
  "MaxRetries cfg < int attempt \<Longrightarrow>
   attempts cfg ctx fn rnd attempt backoff lastErr = \<lparr>returned = lastErr, calls = 0, waits = []\<rparr>"
  by (subst attempts.simps) simp

lemma two_minutes_limiter_eq:
  "two_minutes_limiter =
     (\<lparr>config = 0\<rparr>,
      [\<lparr>MaxRetries = 3, InitialBackoff = 120000000000, MaxBackoff = 60000000000,
        BackoffMultiplier = Finite 2\<rparr>])"
  by (simp add: two_minutes_limiter_def newRateLimiter_def two_minutes_config_def
      apply_defaults_def Second_def)

lemma grow_backoff_twice: "BackoffMultiplier cfg = Finite 2 \<Longrightarrow> \<bar>b\<bar> < 2 ^ 52 \<Longrightarrow>
   grow_backoff cfg b = (if MaxBackoff cfg < b * 2 then MaxBackoff cfg else b * 2)"
  using grow_backoff_int[of cfg 2 b] by simp

lemma isRateLimitError_nil: "\<not> isRateLimitError None"
  by (simp add: isRateLimitError_def)

lemma attempts_transient:
  "\<forall>n. isRateLimitError (fn n) \<Longrightarrow> never_cancelled ctx \<Longrightarrow> int attempt \<le> MaxRetries cfg \<Longrightarrow>
     calls (attempts cfg ctx fn rnd attempt backoff lastErr) = nat (MaxRetries cfg + 1 - int attempt)
       \<and> returned (attempts cfg ctx fn rnd attempt backoff lastErr) = fn (nat (MaxRetries cfg))"
proof (induction cfg ctx fn rnd attempt backoff lastErr rule: attempts.induct)
  case (1 cfg ctx fn rnd attempt backoff lastErr)
  have "isRateLimitError (fn attempt)" using "1.prems"(1) by simp
  then obtain err where e: "fn attempt = Some err" "isRateLimitError (Some err)"
    using isRateLimitError_nil by (cases "fn attempt") auto
  have nd: "\<not> Done_before_attempt ctx attempt" "\<And>w. \<not> Done_during_wait ctx attempt w"
    using "1.prems"(2) by (auto simp: never_cancelled_def)
  show ?case
  proof (cases "MaxRetries cfg \<le> int attempt")
    case True
    then have eq: "MaxRetries cfg = int attempt" using "1.prems" by simp
    then have "nat (MaxRetries cfg) = attempt" by simp
    then show ?thesis using e nd eq
      by (subst attempts.simps, subst (2) attempts.simps) auto
  next
    case False
    have ih: "calls (attempts cfg ctx fn rnd (Suc attempt) (grow_backoff cfg backoff) (Some err)) =
          nat (MaxRetries cfg + 1 - int (Suc attempt)) \<and>
          returned (attempts cfg ctx fn rnd (Suc attempt) (grow_backoff cfg backoff) (Some err)) =
          fn (nat (MaxRetries cfg))"
      using "1.IH"[OF "1.prems"(3) nd(1) e(1) _ False refl nd(2) "1.prems"(1,2)] e False by simp
    show ?thesis using e nd "1.prems"(3) False ih
      by (subst attempts.simps, subst (2) attempts.simps) (auto simp: after_attempt_def Let_def)
  qed
qed

lemma first_invocation_iff:
  "0 < calls (Execute h r ctx fn rnd) \<longleftrightarrow>
     0 \<le> MaxRetries (h ! config r) \<and> \<not> Done_before_attempt ctx 0"
  unfolding Execute_def Let_def
  by (subst attempts.simps) (auto simp: after_attempt_def Let_def split: option.splits)

lemma default_limiter_eq:
  "default_limiter =
     (\<lparr>config = 0\<rparr>,
      [\<lparr>MaxRetries = 3, InitialBackoff = 1000000000, MaxBackoff = 60000000000,
        BackoffMultiplier = Finite 2\<rparr>])"
  by (simp add: default_limiter_def newRateLimiter_def DefaultRateLimitConfig_def
      apply_defaults_def Second_def)

lemma negative_retries_limiter_eq:
  "negative_retries_limiter =
     (\<lparr>config = 0\<rparr>,
      [\<lparr>MaxRetries = - 2, InitialBackoff = 1000000000, MaxBackoff = 60000000000,
        BackoffMultiplier = Finite 2\<rparr>])"
  by (simp add: negative_retries_limiter_def newRateLimiter_def negative_retries_config_def
      apply_defaults_def Second_def)

lemma never_cancelled_Background: "never_cancelled Background"
  by (simp add: never_cancelled_def Background_def)

lemma round_float64_numeral:
  "numeral n < (2::int) ^ 53 \<Longrightarrow> round_float64 (numeral n) = Finite (numeral n)"
  using round_float64_int[of "numeral n"] by simp

lemma round_float64_five_halves: "round_float64 (5 / 2) = Finite (5 / 2)"
  by (rule round_float64_exact[of _ 5 "- 1"]) simp_all

lemma floor_five_halves: "\<lfloor>5 / 2 :: rat\<rfloor> = 2"
  by (rule floor_unique) simp_all

lemmas number_eval = floor_five_halves
  ParseFloat_def decimal_float64_def digits_value_def int64_of_float64_def toward_zero_def
  wrap64_def Second_def Millisecond_def round_float64_numeral round_float64_five_halves

lemma ParseFloat_1500: "ParseFloat ''1500'' = Some (Finite 1500)"
  by (simp add: number_eval is_digit_def)

lemma match_pattern_absent:
  "\<not> Contains (ToLower s) p \<Longrightarrow> match_pattern s p = None"
  by (simp add: match_pattern_def Contains_def)

text \<open>
  Every backoff that comes out of the growth step is capped. With one second, a cap of
  ten seconds and the multiplier 3 the backoffs are 1, 3, 9, 10 and 10 seconds.
\<close>

lemma grow_backoff_le_MaxBackoff: "grow_backoff cfg backoff \<le> MaxBackoff cfg"
  by (simp add: grow_backoff_def Let_def)

lemma grow_backoff_thrice: "BackoffMultiplier cfg = Finite 3 \<Longrightarrow> \<bar>b\<bar> < 2 ^ 51 \<Longrightarrow>
   grow_backoff cfg b = (if MaxBackoff cfg < b * 3 then MaxBackoff cfg else b * 3)"
  using grow_backoff_int[of cfg 3 b] by simp

lemma tripling_backoffs:
  "waits (Execute [tripling_config] \<lparr>config = 0\<rparr> Background always_429 half) =
     [1 * Second, 3 * Second, 9 * Second, 10 * Second, 10 * Second]"
  by (simp add: tripling_config_def Execute_def attempts_retry attempts_exhausted
      too_many_requests_transient too_many_requests_no_hint calculateBackoff_half half_def
      grow_backoff_thrice Background_def after_attempt_def Second_def always_429_def)

text \<open>With a context that is already cancelled the operation is not invoked.\<close>

lemma Execute_Cancelled:
  "0 \<le> MaxRetries (h ! config r) \<Longrightarrow>
   Execute h r Cancelled fn rnd =
     \<lparr>returned = Some (Errorf ''context canceled''), calls = 0, waits = []\<rparr>"
  unfolding Execute_def Let_def by (subst attempts.simps) (simp add: Cancelled_def)

section \<open>The retry controller: claims\<close>

text \<open>
  C1, as the code has it: when the limiter's configuration has \<^verbatim>\<open>MaxRetries\<close> of at least
  0, every invocation of the operation returns an error classified as transient, and the
  context is never cancelled, \<^verbatim>\<open>Execute\<close> invokes the operation exactly
  \<^verbatim>\<open>MaxRetries + 1\<close> times and returns the error of the last invocation (the one with
  the number \<^verbatim>\<open>MaxRetries\<close>, counting from 0).
\<close>

theorem Execute_always_transient:
  assumes "0 \<le> MaxRetries (h ! config r)" and "\<forall>n. isRateLimitError (fn n)"
    and "never_cancelled ctx"
  shows "int (calls (Execute h r ctx fn rnd)) = MaxRetries (h ! config r) + 1 \<and>
         returned (Execute h r ctx fn rnd) = fn (nat (MaxRetries (h ! config r)))"
  using assms attempts_transient[of fn ctx 0 "h ! config r" rnd "InitialBackoff (h ! config r)" None]
  by (simp add: Execute_def Let_def)

text \<open>
  With the limiter built from a nil configuration (3 retries) the operation that is always
  answered 429 is invoked 4 times.
\<close>

theorem Execute_always_transient_witness:
  "calls (Execute (snd default_limiter) (fst default_limiter) Background always_429 half) = 4 \<and>
   returned (Execute (snd default_limiter) (fst default_limiter) Background always_429 half) =
     Some too_many_requests"
  using Execute_always_transient[of "snd default_limiter" "fst default_limiter" always_429
      Background half]
  by (simp add: default_limiter_eq never_cancelled_Background always_429_def
      too_many_requests_transient)

text \<open>
  C1 as stated fails for a negative \<^verbatim>\<open>MaxRetries\<close>, which no default replaces: with
  \<^verbatim>\<open>MaxRetries = -2\<close> the loop body never runs, the operation is not invoked at all
  (not \<^verbatim>\<open>MaxRetries + 1 = -1\<close> times), and \<^verbatim>\<open>Execute\<close> returns \<^verbatim>\<open>lastErr\<close>, which is nil.
\<close>

theorem Execute_negative_MaxRetries_counterexample:
  "MaxRetries (snd negative_retries_limiter ! config (fst negative_retries_limiter)) = - 2 \<and>
   isRateLimitError (always_429 0) \<and>
   calls (Execute (snd negative_retries_limiter) (fst negative_retries_limiter)
            Background always_429 half) = 0 \<and>
   returned (Execute (snd negative_retries_limiter) (fst negative_retries_limiter)
            Background always_429 half) = None"
  by (simp add: negative_retries_limiter_eq Execute_def attempts_none always_429_def
      too_many_requests_transient)

text \<open>
  C2, as the code has it: when \<^verbatim>\<open>MaxRetries\<close> is at least 0, the context is not already
  cancelled when \<^verbatim>\<open>Execute\<close> starts, and the first invocation of the operation returns
  an error with an ASCII text that is not classified as transient, \<^verbatim>\<open>Execute\<close> invokes
  the operation exactly once, starts no wait, and returns that very error.
\<close>

theorem Execute_permanent_error:
  assumes "0 \<le> MaxRetries (h ! config r)" and "\<not> Done_before_attempt ctx 0"
    and "fn 0 = Some err" and "ascii (Error err)" and "\<not> isRateLimitError (Some err)"
  shows "Execute h r ctx fn rnd = \<lparr>returned = Some err, calls = 1, waits = []\<rparr>"
  using assms unfolding Execute_def Let_def
  by (subst attempts.simps) simp

theorem Execute_permanent_error_witness:
  "Execute (snd default_limiter) (fst default_limiter) Background always_denied half =
     \<lparr>returned = Some invalid_api_key, calls = 1, waits = []\<rparr>"
  using Execute_permanent_error[of "snd default_limiter" "fst default_limiter" Background
      always_denied invalid_api_key half]
    invalid_api_key_permanent
  by (simp add: default_limiter_eq Background_def always_denied_def)
     (simp add: invalid_api_key_def Errorf_def ascii_def)

text \<open>
  C2 as stated fails when the first invocation never takes place: with a context that is
  already cancelled \<^verbatim>\<open>Execute\<close> returns the error of the context before it invokes the
  operation, and with a negative \<^verbatim>\<open>MaxRetries\<close> the loop body never runs and \<^verbatim>\<open>Execute\<close>
  returns nil. In both runs the operation, which would fail for good, is invoked 0 times.
\<close>

theorem Execute_no_first_invocation_counterexample:
  "\<not> isRateLimitError (always_denied 0) \<and>
   Execute (snd default_limiter) (fst default_limiter) Cancelled always_denied half =
     \<lparr>returned = Some (Errorf ''context canceled''), calls = 0, waits = []\<rparr> \<and>
   Execute (snd negative_retries_limiter) (fst negative_retries_limiter) Background
     always_denied half = \<lparr>returned = None, calls = 0, waits = []\<rparr>"
proof -
  have cancelled:
    "Execute (snd default_limiter) (fst default_limiter) Cancelled always_denied half =
       \<lparr>returned = Some (Errorf ''context canceled''), calls = 0, waits = []\<rparr>"
    using Execute_Cancelled[of "snd default_limiter" "fst default_limiter" always_denied half]
    by (simp add: default_limiter_eq)
  have negative:
    "Execute (snd negative_retries_limiter) (fst negative_retries_limiter) Background
       always_denied half = \<lparr>returned = None, calls = 0, waits = []\<rparr>"
    by (simp add: negative_retries_limiter_eq Execute_def attempts_none)
  have "\<not> isRateLimitError (always_denied 0)"
    by (simp add: always_denied_def invalid_api_key_permanent)
  then show ?thesis using cancelled negative by (simp only: simp_thms)
qed

text \<open>
  C4 at a configuration in which only \<^verbatim>\<open>InitialBackoff\<close> is set, to two minutes: the
  defaults make \<^verbatim>\<open>MaxBackoff\<close> 60 seconds and the multiplier 2. The random number 1/2
  makes the jitter 0, so the waits are the nominal backoffs: the first is 120 seconds,
  above \<^verbatim>\<open>MaxBackoff\<close>, and the second is smaller than the first.
\<close>

theorem first_backoff_exceeds_MaxBackoff:
  "MaxBackoff (snd two_minutes_limiter ! config (fst two_minutes_limiter)) = 60 * Second \<and>
   BackoffMultiplier (snd two_minutes_limiter ! config (fst two_minutes_limiter)) = Finite 2 \<and>
   waits (Execute (snd two_minutes_limiter) (fst two_minutes_limiter) Background always_429 half) =
     [120 * Second, 60 * Second, 60 * Second]"
  by (simp add: two_minutes_limiter_eq Execute_def attempts_retry attempts_exhausted
      too_many_requests_transient too_many_requests_no_hint calculateBackoff_half half_def
      grow_backoff_twice Background_def after_attempt_def Second_def always_429_def)

text \<open>
  C5, as the code has it: for an error with an ASCII text in which none of the earlier
  patterns \<^verbatim>\<open>retry after \<close>, \<^verbatim>\<open>retry-after: \<close> and \<^verbatim>\<open>retry_after=\<close> occurs (in any case of
  the letters), and in which the digits and dots that follow the first occurrence of
  \<^verbatim>\<open>retry_after_ms=\<close> are exactly \<^verbatim>\<open>1500\<close>, the wait computed is 1500 milliseconds,
  whatever the backoff and the random number are.
\<close>

theorem retry_after_ms_honoured:
  assumes "ascii (Error err)"
    and "\<not> Contains (ToLower (Error err)) ''retry after ''"
    and "\<not> Contains (ToLower (Error err)) ''retry-after: ''"
    and "\<not> Contains (ToLower (Error err)) ''retry_after=''"
    and "Index (ToLower (Error err)) ''retry_after_ms='' = Some i"
    and "takeWhile is_number_byte (drop (i + 15) (Error err)) = ''1500''"
  shows "calculateBackoff backoff (Some err) u = 1500 * Millisecond"
proof -
  have "i + length ''retry_after_ms='' = i + 15" by simp
  then have number:
    "takeWhile is_number_byte (drop (i + length ''retry_after_ms='') (Error err)) = ''1500''"
    using assms(6) by (simp only:)
  have "match_pattern (Error err) ''retry_after_ms='' = Some (1500 * Millisecond)"
    using assms(5) number ParseFloat_1500
    by (simp add: match_pattern_def Contains_def int64_of_float64_def toward_zero_def
        wrap64_def Millisecond_def)
  then have "extractRetryAfter (Some err) = 1500 * Millisecond"
    using assms(2,3,4)
    by (simp add: extractRetryAfter_def retry_after_patterns_def match_pattern_absent)
  then show ?thesis by (simp add: calculateBackoff_def Millisecond_def)
qed

theorem retry_after_ms_honoured_witness:
  "calculateBackoff (1 * Second) (Some ms_hint) (Finite (1 / 2)) = 1500 * Millisecond"
  using retry_after_ms_honoured[of ms_hint 23 "1 * Second" "Finite (1 / 2)"]
  by (simp add: ms_hint_def ascii_def string_eval)

text \<open>
  C5 as stated fails when the text holds an earlier pattern as well: the patterns are
  tried in order and the first one followed by a number decides. Here
  \<^verbatim>\<open>retry_after=30\<close> comes first, and the wait is 30 seconds.
\<close>

theorem earlier_pattern_wins_counterexample:
  "isRateLimitError (Some two_hints) \<and>
   Contains (Error two_hints) ''retry_after_ms=1500'' \<and>
   calculateBackoff (1 * Second) (Some two_hints) (Finite (1 / 2)) = 30 * Second"
  by (simp add: two_hints_def calculateBackoff_def string_eval number_eval)

text \<open>
  C6 at the text \<^verbatim>\<open>retry after 2.5 seconds\<close>: the number is parsed as 2.5, converted to a
  \<^verbatim>\<open>time.Duration\<close> (an integer, so 2) before it is multiplied by \<^verbatim>\<open>time.Second\<close>, and
  the wait is 2 seconds, not 2.5.
\<close>

theorem fractional_retry_after_truncated:
  "isRateLimitError (Some fractional_hint) \<and>
   extractRetryAfter (Some fractional_hint) = 2 * Second \<and>
   calculateBackoff backoff (Some fractional_hint) u = 2 * Second"
  by (simp add: fractional_hint_def calculateBackoff_def string_eval number_eval)

text \<open>
  C7, as the code has it: \<^verbatim>\<open>newRateLimiter\<close> writes through the pointer it is given.
  After the call the limiter points to the caller's configuration, in which every field
  that was zero holds its default (3, one second, 60 seconds, 2.0) and every other field,
  like every other configuration of the store, is as before.
\<close>

theorem newRateLimiter_writes_defaults:
  assumes "p < length h" and "newRateLimiter h (Some p) = (r, h')"
  shows "config r = p \<and> length h' = length h \<and> (\<forall>q. q \<noteq> p \<longrightarrow> h' ! q = h ! q) \<and>
     MaxRetries (h' ! p) = (if MaxRetries (h ! p) = 0 then 3 else MaxRetries (h ! p)) \<and>
     InitialBackoff (h' ! p) =
       (if InitialBackoff (h ! p) = 0 then 1 * Second else InitialBackoff (h ! p)) \<and>
     MaxBackoff (h' ! p) = (if MaxBackoff (h ! p) = 0 then 60 * Second else MaxBackoff (h ! p)) \<and>
     BackoffMultiplier (h' ! p) =
       (if BackoffMultiplier (h ! p) = Finite 0 then Finite 2 else BackoffMultiplier (h ! p))"
  using assms by (auto simp: newRateLimiter_def apply_defaults_def Let_def)

theorem newRateLimiter_writes_defaults_witness:
  "snd (newRateLimiter [zero_config] (Some 0)) ! 0 = DefaultRateLimitConfig"
  using newRateLimiter_writes_defaults[of 0 "[zero_config]"
      "fst (newRateLimiter [zero_config] (Some 0))" "snd (newRateLimiter [zero_config] (Some 0))"]
  by (simp add: zero_config_def DefaultRateLimitConfig_def)

text \<open>
  C7 as stated fails: built from a configuration with every field at zero, the limiter
  leaves the four fields of the caller's configuration changed.
\<close>

theorem newRateLimiter_mutates_counterexample:
  "MaxRetries zero_config = 0 \<and>
   MaxRetries (snd (newRateLimiter [zero_config] (Some 0)) ! 0) = 3 \<and>
   InitialBackoff zero_config = 0 \<and>
   InitialBackoff (snd (newRateLimiter [zero_config] (Some 0)) ! 0) = 1 * Second \<and>
   MaxBackoff zero_config = 0 \<and>
   MaxBackoff (snd (newRateLimiter [zero_config] (Some 0)) ! 0) = 60 * Second \<and>
   BackoffMultiplier zero_config = Finite 0 \<and>
   BackoffMultiplier (snd (newRateLimiter [zero_config] (Some 0)) ! 0) = Finite 2"
  by (simp add: newRateLimiter_def apply_defaults_def zero_config_def)

section \<open>The gateway: lemmas\<close>

lemma close_all_events: "snd (close_all ps) = map (CloseCalled \<circ> fst) ps"
  by (induction ps rule: close_all.induct) (auto split: prod.splits option.splits)

lemma register_all_never_closes:
  "CloseCalled name \<notin> set (snd (register_all providerFactories configs ps))"
  by (induction providerFactories configs ps rule: register_all.induct)
     (auto simp: Let_def split_beta split: option.splits sum.splits)

lemma register_all_unknown_fails:
  "providerFactories (providerType conf) = None \<Longrightarrow>
   \<exists>err. fst (register_all providerFactories (before @ Some conf # rest) ps) = Inl err"
proof (induction before arbitrary: ps)
  case Nil
  then show ?case by (simp add: Let_def)
next
  case (Cons c before)
  show ?case
  proof (cases c)
    case None
    then show ?thesis using Cons by simp
  next
    case (Some conf')
    then show ?thesis using Cons.IH[OF Cons.prems]
      by (auto simp: Let_def split_beta split: option.splits sum.splits)
  qed
qed

lemma register_all_unknown_named:
  "providerFactories (providerType conf) = None \<Longrightarrow>
   list_all (constructs providerFactories) before \<Longrightarrow>
   fst (register_all providerFactories (before @ Some conf # rest) ps) =
     Inl (Errorf (''unknown provider type: '' @ providerType conf))"
proof (induction before arbitrary: ps)
  case Nil
  then show ?case by (simp add: Let_def)
next
  case (Cons c before)
  show ?case
  proof (cases c)
    case None
    then show ?thesis using Cons by simp
  next
    case (Some conf')
    then show ?thesis using Cons.IH[OF Cons.prems(1)] Cons.prems(2)
      by (auto simp: Let_def split_beta constructs_def split: option.splits sum.splits)
  qed
qed

section \<open>The gateway: claims\<close>

text \<open>
  C3: when the provider of the descriptor is registered and the adapter returns a nil
  error, every response that \<^verbatim>\<open>Generate\<close> returns has the provider of the descriptor in
  its field \<^verbatim>\<open>Provider\<close>; and when the adapter returns the response \<open>r\<close>, \<^verbatim>\<open>Generate\<close>
  returns \<open>r\<close> with that field overwritten, whatever the adapter had put there.
\<close>

theorem Generate_stamps_provider:
  assumes "map_of (providers g) (Model_Provider model) = Some client"
    and "adapter_Generate client ctx model prompt = (resp, None)"
  shows "(\<forall>r err. Generate g ctx model prompt = Returns (Some r, err) \<longrightarrow>
            Provider r = Model_Provider model) \<and>
         (\<forall>r. resp = Some r \<longrightarrow>
            Generate g ctx model prompt =
              Returns (Some (r\<lparr>Provider := Model_Provider model\<rparr>), None))"
  using assms by (cases resp) (auto simp: Generate_def Let_def)

theorem Generate_stamps_provider_witness:
  "Generate stub_gateway Background gpt4o ''hi'' =
     Returns (Some (stub_response\<lparr>Provider := ''openai''\<rparr>), None) \<and>
   Provider stub_response = ''someone else''"
  using Generate_stamps_provider[of stub_gateway gpt4o stub_adapter Background "''hi''"
      "Some stub_response"]
  by (simp add: stub_gateway_def gpt4o_def stub_adapter_def stub_response_def)

text \<open>
  C8, as the code has it: \<^verbatim>\<open>Close\<close> calls \<^verbatim>\<open>Close\<close> on every adapter of the map, once
  each, and leaves the map as it was: after it, \<^verbatim>\<open>IsRegistered\<close> and
  \<^verbatim>\<open>ListRegisteredProviders\<close> answer as before.
\<close>

theorem Close_keeps_providers:
  "fst (Close g) = g \<and>
   IsRegistered (fst (Close g)) provider = IsRegistered g provider \<and>
   ListRegisteredProviders (fst (Close g)) = ListRegisteredProviders g \<and>
   snd (snd (Close g)) = map CloseCalled (ListRegisteredProviders g)"
  using close_all_events[of "providers g"]
  by (auto simp: Close_def ListRegisteredProviders_def split: prod.splits)

text \<open>
  C8 as stated fails: after \<^verbatim>\<open>Close\<close> a gateway with an adapter for \<^verbatim>\<open>openai\<close> still has
  it registered and listed.
\<close>

theorem Close_not_drained_counterexample:
  "IsRegistered (fst (Close stub_gateway)) ''openai'' \<and>
   ListRegisteredProviders (fst (Close stub_gateway)) = [''openai'']"
  by (simp add: Close_def stub_gateway_def stub_adapter_def IsRegistered_def
      ListRegisteredProviders_def)

text \<open>
  C9, as the code has it: when the list holds a configuration whose provider has no
  factory, \<^verbatim>\<open>New\<close> returns a nil gateway and an error and calls \<^verbatim>\<open>Close\<close> on no adapter;
  when moreover \<^verbatim>\<open>New\<close> gets past every configuration before that one, the error is the
  one of the unknown provider, with its identifier.
\<close>

theorem New_unknown_provider:
  assumes "configs = before @ Some conf # rest"
    and "providerFactories (providerType conf) = None"
  shows "(\<exists>err. fst (New providerFactories configs) = (None, Some err)) \<and>
         (\<forall>name. CloseCalled name \<notin> set (snd (New providerFactories configs))) \<and>
         (list_all (constructs providerFactories) before \<longrightarrow>
            fst (New providerFactories configs) =
              (None, Some (Errorf (''unknown provider type: '' @ providerType conf))))"
proof -
  obtain res evs where r: "register_all providerFactories configs [] = (res, evs)"
    by (cases "register_all providerFactories configs []")
  obtain err where e: "res = Inl err"
    using register_all_unknown_fails[of providerFactories conf before rest "[]"] r assms
    by auto
  have c: "\<forall>name. CloseCalled name \<notin> set evs"
    using register_all_never_closes[of _ providerFactories configs "[]"] r by simp
  have n: "list_all (constructs providerFactories) before \<longrightarrow>
           err = Errorf (''unknown provider type: '' @ providerType conf)"
    using register_all_unknown_named[of providerFactories conf before rest "[]"] r e assms
    by auto
  show ?thesis using r e c n by (simp add: New_def)
qed

theorem New_unknown_provider_witness:
  "New stub_registry [Some openai_config, Some ollama_config] =
     ((None, Some (Errorf ''unknown provider type: ollama'')), [FactoryCalled ''openai''])"
  using New_unknown_provider[of "[Some openai_config, Some ollama_config]" "[Some openai_config]"
      ollama_config "[]" stub_registry]
  by (simp add: New_def stub_registry_def RegisterProvider_def openai_config_def
      ollama_config_def Let_def)

text \<open>
  C9 as stated fails when an earlier configuration stops the construction: here the
  factory of \<^verbatim>\<open>openai\<close> fails first, and the error returned is about \<^verbatim>\<open>openai\<close>; it does
  not name \<^verbatim>\<open>ollama\<close>, the provider without a factory.
\<close>

theorem New_earlier_failure_counterexample:
  "failing_registry (providerType ollama_config) = None \<and>
   fst (New failing_registry [Some openai_config, Some ollama_config]) =
     (None, Some (GoError ''failed to initialize openai: OpenAI API key is required''
                    (Some key_required))) \<and>
   \<not> Contains ''failed to initialize openai: OpenAI API key is required'' ''ollama''"
  by (simp add: New_def failing_registry_def RegisterProvider_def openai_config_def
      ollama_config_def Let_def Errorf_w_def key_required_def Errorf_def Contains_def)

text \<open>
  C10: for a registered provider, \<^verbatim>\<open>Generate\<close> does not reach the dereference of a nil
  response when the adapter never returns a nil response with a nil error, and it panics
  on that dereference when the adapter returns both nil.
\<close>

theorem Generate_nil_response:
  assumes "map_of (providers g) (Model_Provider model) = Some client"
  shows "(returns_response_or_error client \<longrightarrow>
            Generate g ctx model prompt \<noteq> Panics_nil_dereference) \<and>
         (adapter_Generate client ctx model prompt = (None, None) \<longrightarrow>
            Generate g ctx model prompt = Panics_nil_dereference)"
proof -
  obtain resp err where r: "adapter_Generate client ctx model prompt = (resp, err)"
    by (cases "adapter_Generate client ctx model prompt")
  show ?thesis
    using assms r
    by (cases resp; cases err) (auto simp: Generate_def Let_def returns_response_or_error_def)
qed

theorem Generate_nil_response_witness:
  "Generate stub_gateway Background gpt4o ''hi'' \<noteq> Panics_nil_dereference \<and>
   Generate silent_gateway Background gpt4o ''hi'' = Panics_nil_dereference"
  using Generate_nil_response[of stub_gateway gpt4o stub_adapter Background "''hi''"]
    Generate_nil_response[of silent_gateway gpt4o silent_adapter Background "''hi''"]
  by (simp add: stub_gateway_def silent_gateway_def gpt4o_def stub_adapter_def
      silent_adapter_def returns_response_or_error_def)

end
